theory Spec2Isabelle
  imports Main "HOL-Library.Sublist"
begin

section \<open>Values that cross the subscription's boundary\<close>

text \<open>
  Everything the classes of \<^verbatim>\<open>TasitAction.js\<close> throw is a JavaScript error object.
  The source itself only ever writes \<^verbatim>\<open>new Error(message)\<close>; the engine adds a
  ReferenceError (reading an identifier no scope declares) and a TypeError (reading a
  property of \<^verbatim>\<open>undefined\<close>, calling something that is not a function). The
  argument of \<open>ReferenceError\<close> is the identifier, the argument of the other two the
  message.
\<close>

datatype exn = Error string | ReferenceError string | TypeError string

text \<open>\<^verbatim>\<open>error.message\<close> (the wording of the engine's own errors is V8's).\<close>

fun message_of :: "exn \<Rightarrow> string" where
  "message_of (Error m) = m"
| "message_of (ReferenceError x) = x @ '' is not defined''"
| "message_of (TypeError m) = m"

text \<open>\<^verbatim>\<open>`${error}`\<close>: the name of the error, a colon, its message.\<close>

fun toString :: "exn \<Rightarrow> string" where
  "toString (Error m) = ''Error: '' @ m"
| "toString (ReferenceError x) = ''ReferenceError: '' @ message_of (ReferenceError x)"
| "toString (TypeError m) = ''TypeError: '' @ m"

text \<open>
  A call either returns or throws. For an \<^verbatim>\<open>async\<close> function \<open>Returned\<close> is a
  fulfilled promise and \<open>Threw e\<close> a promise rejected with \<open>e\<close>: the exception that
  leaves the function body and reaches whoever called it.
\<close>

datatype outcome = Returned | Threw exn

datatype 'a promise = Resolves 'a | Rejects exn

text \<open>A positional argument of a contract event.\<close>

datatype val = Num int | Str string

text \<open>
  The three messages listeners receive:
  \<^verbatim>\<open>{data: {confirmations}}\<close>, \<^verbatim>\<open>{data: {args}}\<close> (\<open>None\<close> when
  \<^verbatim>\<open>event.args\<close> is \<^verbatim>\<open>undefined\<close>) and \<^verbatim>\<open>{error, eventName}\<close>.
\<close>

datatype message =
    ConfirmationMessage nat
  | EventMessage "val list option"
  | ErrorMessage exn string

text \<open>
  What a caller passes as \<^verbatim>\<open>listener\<close>: a function, known by its identity and by
  what it does with a message (\<open>None\<close>: it returns, or the promise it returns is
  fulfilled; \<open>Some e\<close>: it throws \<open>e\<close>, or its promise is rejected with \<open>e\<close>), or any
  value that is not a function. Listeners do not call back into the subscription.
\<close>

datatype callback = NotAFunction | Function nat "message \<Rightarrow> exn option"

text \<open>\<^verbatim>\<open>typeof listener === "function"\<close>; every function is truthy.\<close>

fun isFunction :: "callback \<Rightarrow> bool" where
  "isFunction NotAFunction = False"
| "isFunction (Function i f) = True"

text \<open>
  The values stored in the registry and attached to the emitter: a caller's value as it
  is, or one of the two \<^verbatim>\<open>ethersListener\<close> closures, with the identity of the closure
  and the variables it captures (\<^verbatim>\<open>listener\<close>, \<^verbatim>\<open>once\<close>, and
  \<^verbatim>\<open>eventName\<close> for a contract event).
\<close>

datatype listener =
    Callback callback
  | ConfirmationListener nat callback bool
  | ContractListener nat string callback bool

datatype ref = NoRef | UserRef nat | ClosureRef nat

text \<open>Function identity, which \<^verbatim>\<open>removeListener\<close> compares.\<close>

fun ref_of :: "listener \<Rightarrow> ref" where
  "ref_of (Callback NotAFunction) = NoRef"
| "ref_of (Callback (Function i f)) = UserRef i"
| "ref_of (ConfirmationListener i l once) = ClosureRef i"
| "ref_of (ContractListener i n l once) = ClosureRef i"

text \<open>
  How the host resolves the free identifier \<^verbatim>\<open>event\<close> that \<^verbatim>\<open>off\<close> reads: no
  declaration of it is in scope in the module, so it is looked up in the global scope.
  Node.js and React Native declare no such global (\<open>Undeclared\<close>: reading it throws a
  ReferenceError); a browser has \<^verbatim>\<open>window.event\<close>, which is \<^verbatim>\<open>undefined\<close>
  outside the dispatch of a DOM event (\<open>Declared False\<close>) and an object during one
  (\<open>Declared True\<close>). The flag is the truthiness of the value.
\<close>

datatype binding = Undeclared | Declared bool

section \<open>The JavaScript \<^verbatim>\<open>Map\<close> of the registry\<close>

text \<open>
  A \<^verbatim>\<open>Map\<close> keeps its keys in insertion order; \<^verbatim>\<open>set\<close> on a present key
  replaces the value where it stands.
\<close>

fun mapGet :: "('k \<times> 'v) list \<Rightarrow> 'k \<Rightarrow> 'v option" where
  "mapGet [] k = None"
| "mapGet ((k', v) # m) k = (if k' = k then Some v else mapGet m k)"

fun mapSet :: "'k \<Rightarrow> 'v \<Rightarrow> ('k \<times> 'v) list \<Rightarrow> ('k \<times> 'v) list" where
  "mapSet k v [] = [(k, v)]"
| "mapSet k v ((k', v') # m) = (if k' = k then (k, v) # m else (k', v') # mapSet k v m)"

fun mapDelete :: "'k \<Rightarrow> ('k \<times> 'v) list \<Rightarrow> ('k \<times> 'v) list" where
  "mapDelete k [] = []"
| "mapDelete k ((k', v) # m) = (if k' = k then mapDelete k m else (k', v) # mapDelete k m)"

definition mapKeys :: "('k \<times> 'v) list \<Rightarrow> 'k list" where
  "mapKeys m = map fst m"

section \<open>The notification source\<close>

text \<open>
  The emitter (an ethers.js provider or contract) is not part of the repository. It is
  modelled by its interface: the list of attached handlers under their transport-level
  names, \<^verbatim>\<open>on\<close> appending one and \<^verbatim>\<open>removeListener\<close> removing the first
  attachment of that name and that function.
\<close>

type_synonym emitter = "(string \<times> listener) list"

definition emitter_on :: "string \<Rightarrow> listener \<Rightarrow> emitter \<Rightarrow> emitter" where
  "emitter_on tag l em = em @ [(tag, l)]"

fun removeListener :: "string \<Rightarrow> listener \<Rightarrow> emitter \<Rightarrow> emitter" where
  "removeListener tag l [] = []"
| "removeListener tag l ((tag', l') # em) =
     (if tag' = tag \<and> ref_of l' = ref_of l then em else (tag', l') # removeListener tag l em)"

section \<open>class Subscription\<close>

text \<open>
  The two private fields of the class, and below them what its methods act on outside the
  object: the console, the host's pending timers (delay in milliseconds and the
  \<^verbatim>\<open>eventName\<close> the timer's callback captured), the invocations of callers' functions
  so far (identity and message, in order), the global scope's \<^verbatim>\<open>event\<close>, and the
  next unused closure identity.
\<close>

record subscription =
  ethersEventEmitter :: emitter
  eventListeners :: "(string \<times> listener) list"
  console :: "string list"
  timers :: "(nat \<times> string) list"
  calls :: "(nat \<times> message) list"
  global_event :: binding
  fresh :: nat

definition apostrophe :: string where
  "apostrophe = [CHR 0x27]"

definition toEthersEventName :: "string \<Rightarrow> string" where
  "toEthersEventName eventName = (if eventName = ''confirmation'' then ''block'' else eventName)"

text \<open>
  \<^verbatim>\<open>off\<close>. The condition of its first \<^verbatim>\<open>if\<close> reads \<^verbatim>\<open>event\<close>, not
  \<^verbatim>\<open>eventListener\<close>. Destructuring \<^verbatim>\<open>undefined\<close> throws a TypeError.
\<close>

definition off :: "string \<Rightarrow> 'a subscription_scheme \<Rightarrow> outcome \<times> 'a subscription_scheme" where
  "off eventName s =
     (let eventListener = mapGet (eventListeners s) eventName in
      case global_event s of
        Undeclared \<Rightarrow> (Threw (ReferenceError ''event''), s)
      | Declared truthy \<Rightarrow>
          if \<not> truthy then
            (Returned, s\<lparr>console := console s @
               [''A listener for event '' @ apostrophe @ eventName @ apostrophe @
                '' isn'' @ apostrophe @ ''t registered.'']\<rparr>)
          else if eventName \<noteq> ''error'' then
            (case eventListener of
               None \<Rightarrow> (Threw (TypeError ''Cannot read property listener of undefined''), s)
             | Some l \<Rightarrow>
                 (Returned, s\<lparr>ethersEventEmitter :=
                                removeListener (toEthersEventName eventName) l (ethersEventEmitter s),
                              eventListeners := mapDelete eventName (eventListeners s)\<rparr>))
          else (Returned, s\<lparr>eventListeners := mapDelete eventName (eventListeners s)\<rparr>))"

text \<open>
  \<^verbatim>\<open>Map.prototype.forEach\<close> visits the entries in insertion order and skips an entry
  deleted before its turn; an exception thrown by the callback ends the iteration and
  leaves \<^verbatim>\<open>forEach\<close>. The callback of \<^verbatim>\<open>unsubscribe\<close> adds no entry.
\<close>

fun forEach_off :: "string list \<Rightarrow> 'a subscription_scheme \<Rightarrow> outcome \<times> 'a subscription_scheme" where
  "forEach_off [] s = (Returned, s)"
| "forEach_off (eventName # rest) s =
     (if eventName \<in> set (mapKeys (eventListeners s)) then
        (case off eventName s of
           (Threw e, s') \<Rightarrow> (Threw e, s')
         | (Returned, s') \<Rightarrow> forEach_off rest s')
      else forEach_off rest s)"

definition unsubscribe :: "'a subscription_scheme \<Rightarrow> outcome \<times> 'a subscription_scheme" where
  "unsubscribe s = forEach_off (mapKeys (eventListeners s)) s"

definition subscribedEventNames :: "'a subscription_scheme \<Rightarrow> string list" where
  "subscribedEventNames s = mapKeys (eventListeners s)"

text \<open>Calling a caller's value with one message, and recording the invocation.\<close>

fun call :: "callback \<Rightarrow> message \<Rightarrow> 'a subscription_scheme \<Rightarrow> outcome \<times> 'a subscription_scheme" where
  "call NotAFunction m s = (Threw (TypeError ''listener is not a function''), s)"
| "call (Function i f) m s =
     ((case f m of None \<Rightarrow> Returned | Some e \<Rightarrow> Threw e), s\<lparr>calls := calls s @ [(i, m)]\<rparr>)"

text \<open>
  \<^verbatim>\<open>_emitErrorEvent\<close> (the leading underscore of the source's names is dropped). The
  record under \<^verbatim>\<open>"error"\<close> is written by \<^verbatim>\<open>_addErrorListener\<close> alone, since
  \<^verbatim>\<open>_addEventListener\<close> refuses that name, so it holds a caller's value. For
  completeness: an \<^verbatim>\<open>async\<close> closure called here would hand back a promise without
  throwing, and nothing would await it.
\<close>

definition emitErrorEvent :: "exn \<Rightarrow> string \<Rightarrow> 'a subscription_scheme \<Rightarrow> outcome \<times> 'a subscription_scheme" where
  "emitErrorEvent error eventName s =
     (case mapGet (eventListeners s) ''error'' of
        None \<Rightarrow>
          (Returned, s\<lparr>console := console s @ [''Error emission without listener: '' @ toString error]\<rparr>)
      | Some (Callback l) \<Rightarrow> call l (ErrorMessage error eventName) s
      | Some _ \<Rightarrow> (Returned, s))"

definition addErrorListener :: "callback \<Rightarrow> 'a subscription_scheme \<Rightarrow> 'a subscription_scheme" where
  "addErrorListener l s = s\<lparr>eventListeners := mapSet ''error'' (Callback l) (eventListeners s)\<rparr>"

definition addEventListener :: "string \<Rightarrow> listener \<Rightarrow> 'a subscription_scheme \<Rightarrow> outcome \<times> 'a subscription_scheme" where
  "addEventListener eventName l s =
     (if eventName = ''error'' then
        (Threw (Error ''Use _addErrorListener function to subscribe to an error event.''), s)
      else if eventName \<in> set (subscribedEventNames s) then
        (Threw (Error (''A listener for event '' @ apostrophe @ eventName @ apostrophe @
                       '' is already registered.'')), s)
      else
        (Returned, s\<lparr>eventListeners := mapSet eventName l (eventListeners s),
                     ethersEventEmitter :=
                       emitter_on (toEthersEventName eventName) l (ethersEventEmitter s)\<rparr>))"

text \<open>The constructor: an empty registry on the emitter handed in.\<close>

definition new_Subscription :: "emitter \<Rightarrow> binding \<Rightarrow> subscription" where
  "new_Subscription eventEmitter host =
     \<lparr>ethersEventEmitter = eventEmitter, eventListeners = [], console = [], timers = [],
      calls = [], global_event = host, fresh = 0\<rparr>"

section \<open>class TransactionSubscription\<close>

record tx_response =
  hash :: string

record receipt =
  confirmations :: nat

text \<open>
  The fields of the class. \<open>txPromise\<close> is the promise as it settles. \<open>provider\<close> is
  what \<^verbatim>\<open>this.#provider.getTransactionReceipt\<close> answers at present for a hash:
  \<open>Resolves None\<close> is \<^verbatim>\<open>null\<close>. \<open>tx\<close> is \<open>None\<close> while \<^verbatim>\<open>this.#tx\<close> is
  \<^verbatim>\<open>undefined\<close>.
\<close>

record transaction_subscription = subscription +
  txPromise :: "tx_response promise"
  provider :: "string \<Rightarrow> receipt option promise"
  tx :: "tx_response option"
  txConfirmed :: bool
  timeout :: nat

text \<open>The constructor; \<open>config_timeout\<close> is \<^verbatim>\<open>config.events.timeout\<close>.\<close>

definition new_TransactionSubscription ::
  "tx_response promise \<Rightarrow> (string \<Rightarrow> receipt option promise) \<Rightarrow> nat \<Rightarrow> binding \<Rightarrow> transaction_subscription" where
  "new_TransactionSubscription p prov config_timeout host =
     \<lparr>ethersEventEmitter = [], eventListeners = [], console = [], timers = [],
      calls = [], global_event = host, fresh = 0,
      txPromise = p, provider = prov, tx = None, txConfirmed = False, timeout = config_timeout\<rparr>"

definition getEventsTimeout :: "transaction_subscription \<Rightarrow> nat" where
  "getEventsTimeout s = timeout s"

definition setEventsTimeout :: "nat \<Rightarrow> transaction_subscription \<Rightarrow> transaction_subscription" where
  "setEventsTimeout t s = s\<lparr>timeout := t\<rparr>"

text \<open>
  The \<^verbatim>\<open>try\<close> block of the \<^verbatim>\<open>ethersListener\<close> of
  \<^verbatim>\<open>#addConfirmationListener\<close>, statement by statement. The block number it is called
  with is not read. One invocation runs to its end before anything else happens.
\<close>

definition confirmation_try ::
  "callback \<Rightarrow> bool \<Rightarrow> transaction_subscription \<Rightarrow> outcome \<times> transaction_subscription" where
  "confirmation_try l once s =
     (case (if once then off ''confirmation'' s else (Returned, s)) of
        (Threw e, s1) \<Rightarrow> (Threw e, s1)
      | (Returned, s1) \<Rightarrow>
     (case (case tx s1 of
              Some t \<Rightarrow> Inr (t, s1)
            | None \<Rightarrow> (case txPromise s1 of
                         Rejects e \<Rightarrow> Inl e
                       | Resolves t \<Rightarrow> Inr (t, s1\<lparr>tx := Some t\<rparr>))) of
        Inl e \<Rightarrow> (Threw e, s1)
      | Inr (t, s2) \<Rightarrow>
     (case provider s2 (hash t) of
        Rejects e \<Rightarrow> (Threw e, s2)
      | Resolves None \<Rightarrow>
          if txConfirmed s2 then
            emitErrorEvent (Error ''Your message has been included in an uncle block.'')
              ''confirmation'' s2
          else (Returned, s2)
      | Resolves (Some r) \<Rightarrow>
          call l (ConfirmationMessage (confirmations r)) (s2\<lparr>txConfirmed := True\<rparr>))))"

text \<open>The whole closure: the \<^verbatim>\<open>try\<close> block and its \<^verbatim>\<open>catch\<close>.\<close>

definition confirmation_ethersListener ::
  "callback \<Rightarrow> bool \<Rightarrow> transaction_subscription \<Rightarrow> outcome \<times> transaction_subscription" where
  "confirmation_ethersListener l once s =
     (case confirmation_try l once s of
        (Threw error, s') \<Rightarrow>
          emitErrorEvent (Error (''Listener function with error: '' @ message_of error))
            ''confirmation'' s'
      | (Returned, s') \<Rightarrow> (Returned, s'))"

text \<open>The callback handed to \<^verbatim>\<open>setTimeout\<close>, with the \<^verbatim>\<open>eventName\<close> it captured.\<close>

definition timeout_callback :: "string \<Rightarrow> 'a subscription_scheme \<Rightarrow> outcome \<times> 'a subscription_scheme" where
  "timeout_callback eventName s =
     emitErrorEvent (Error (''Event '' @ eventName @ '' reached timeout.'')) eventName s"

definition addConfirmationListener ::
  "callback \<Rightarrow> bool \<Rightarrow> transaction_subscription \<Rightarrow> outcome \<times> transaction_subscription" where
  "addConfirmationListener l once s =
     (let eventName = ''confirmation'';
          ethersListener = ConfirmationListener (fresh s) l once in
      case addEventListener eventName ethersListener (s\<lparr>fresh := Suc (fresh s)\<rparr>) of
        (Threw e, s1) \<Rightarrow> (Threw e, s1)
      | (Returned, s1) \<Rightarrow>
          (Returned, s1\<lparr>timers := timers s1 @ [(getEventsTimeout s1, eventName)]\<rparr>))"

text \<open>\<^verbatim>\<open>#addListener\<close> of the class; \<^verbatim>\<open>`[${triggers}]`\<close> joins the names with a comma.\<close>

definition tx_addListener ::
  "string \<Rightarrow> callback \<Rightarrow> bool \<Rightarrow> transaction_subscription \<Rightarrow> outcome \<times> transaction_subscription" where
  "tx_addListener eventName l once s =
     (if eventName \<notin> set [''confirmation'', ''error''] then
        (Threw (Error ''Invalid listener trigger, use: [confirmation,error]''), s)
      else if eventName = ''error'' \<and> once then
        (Threw (Error ''Use on() function to subscribe to an error event.''), s)
      else if \<not> isFunction l then
        (Threw (Error ''Cannot listen without a function''), s)
      else if eventName = ''error'' then (Returned, addErrorListener l s)
      else if eventName = ''confirmation'' then addConfirmationListener l once s
      else (Returned, s))"

definition tx_on :: "string \<Rightarrow> callback \<Rightarrow> transaction_subscription \<Rightarrow> outcome \<times> transaction_subscription" where
  "tx_on eventName l s = tx_addListener eventName l False s"

definition tx_once :: "string \<Rightarrow> callback \<Rightarrow> transaction_subscription \<Rightarrow> outcome \<times> transaction_subscription" where
  "tx_once eventName l s = tx_addListener eventName l True s"

text \<open>
  The host firing the pending timer at position \<open>i\<close>: the timer leaves the queue and its
  callback runs. Nothing in the source calls \<^verbatim>\<open>clearTimeout\<close>.
\<close>

definition fire_timer :: "nat \<Rightarrow> 'a subscription_scheme \<Rightarrow> outcome \<times> 'a subscription_scheme" where
  "fire_timer i s =
     (if i < length (timers s) then
        timeout_callback (snd (timers s ! i)) (s\<lparr>timers := take i (timers s) @ drop (Suc i) (timers s)\<rparr>)
      else (Returned, s))"

text \<open>
  A block arrives: the provider's answers are those of the new chain head, and the
  emitter calls every handler attached under \<^verbatim>\<open>"block"\<close> at that moment, in the
  order of attachment. The handlers of this subscription are its confirmation closures;
  the outcome of each is kept.
\<close>

fun run_block_handlers ::
  "listener list \<Rightarrow> transaction_subscription \<Rightarrow> outcome list \<times> transaction_subscription" where
  "run_block_handlers [] s = ([], s)"
| "run_block_handlers (ConfirmationListener i l once # hs) s =
     (case confirmation_ethersListener l once s of
        (r, s1) \<Rightarrow> (case run_block_handlers hs s1 of (rs, s2) \<Rightarrow> (r # rs, s2)))"
| "run_block_handlers (h # hs) s = run_block_handlers hs s"

definition block_arrival ::
  "(string \<Rightarrow> receipt option promise) \<Rightarrow> transaction_subscription \<Rightarrow> outcome list \<times> transaction_subscription" where
  "block_arrival chain s =
     run_block_handlers
       (map snd (filter (\<lambda>a. fst a = ''block'') (ethersEventEmitter s)))
       (s\<lparr>provider := chain\<rparr>)"

text \<open>
  Everything that can happen to a transaction subscription, one event at a time, and the
  state after it whether the call returned or threw.
\<close>

datatype tx_event =
    On string callback
  | Once string callback
  | Off string
  | Unsubscribe
  | SetEventsTimeout nat
  | EmitErrorEvent exn string
  | AddErrorListener callback
  | AddEventListener string listener
  | BlockArrival "string \<Rightarrow> receipt option promise"
  | TimerFires nat

fun tx_step :: "tx_event \<Rightarrow> transaction_subscription \<Rightarrow> transaction_subscription" where
  "tx_step (On n l) s = snd (tx_on n l s)"
| "tx_step (Once n l) s = snd (tx_once n l s)"
| "tx_step (Off n) s = snd (off n s)"
| "tx_step Unsubscribe s = snd (unsubscribe s)"
| "tx_step (SetEventsTimeout t) s = setEventsTimeout t s"
| "tx_step (EmitErrorEvent e n) s = snd (emitErrorEvent e n s)"
| "tx_step (AddErrorListener l) s = addErrorListener l s"
| "tx_step (AddEventListener n l) s = snd (addEventListener n l s)"
| "tx_step (BlockArrival chain) s = snd (block_arrival chain s)"
| "tx_step (TimerFires i) s = snd (fire_timer i s)"

text \<open>The states a subscription goes through, the first one included.\<close>

fun tx_trace :: "tx_event list \<Rightarrow> transaction_subscription \<Rightarrow> transaction_subscription list" where
  "tx_trace [] s = [s]"
| "tx_trace (ev # evs) s = s # tx_trace evs (tx_step ev s)"

section \<open>class ContractSubscription\<close>

text \<open>
  \<open>declared_events\<close> are the names under which \<^verbatim>\<open>this.#contract.interface.events\<close>
  has a property.
\<close>

record contract_subscription = subscription +
  declared_events :: "string list"

definition new_ContractSubscription :: "string list \<Rightarrow> binding \<Rightarrow> contract_subscription" where
  "new_ContractSubscription evs host =
     \<lparr>ethersEventEmitter = [], eventListeners = [], console = [], timers = [],
      calls = [], global_event = host, fresh = 0, declared_events = evs\<rparr>"

text \<open>
  What the emitter calls a contract handler with: values, of which the trailing one is
  the event object with its \<^verbatim>\<open>args\<close>.
\<close>

datatype arg = Positional val | EventObject "val list"

definition isEventValid :: "string \<Rightarrow> contract_subscription \<Rightarrow> bool" where
  "isEventValid eventName s = (eventName = ''error'' \<or> eventName \<in> set (declared_events s))"

text \<open>
  The \<^verbatim>\<open>try\<close> block of the \<^verbatim>\<open>ethersListener\<close> of
  \<^verbatim>\<open>#addContractEventListener\<close>. \<^verbatim>\<open>args.pop()\<close> of an empty array is
  \<^verbatim>\<open>undefined\<close>, whose \<^verbatim>\<open>args\<close> cannot be read; the \<^verbatim>\<open>args\<close> of a
  number or a string is \<^verbatim>\<open>undefined\<close>.
\<close>

definition contract_try ::
  "string \<Rightarrow> callback \<Rightarrow> bool \<Rightarrow> arg list \<Rightarrow> contract_subscription \<Rightarrow> outcome \<times> contract_subscription" where
  "contract_try eventName l once args s =
     (if args = [] then (Threw (TypeError ''Cannot read property args of undefined''), s)
      else
        (let message = EventMessage (case last args of
                                       EventObject payload \<Rightarrow> Some payload
                                     | Positional v \<Rightarrow> None) in
         case (if once then off eventName s else (Returned, s)) of
           (Threw e, s1) \<Rightarrow> (Threw e, s1)
         | (Returned, s1) \<Rightarrow> call l message s1))"

definition contract_ethersListener ::
  "string \<Rightarrow> callback \<Rightarrow> bool \<Rightarrow> arg list \<Rightarrow> contract_subscription \<Rightarrow> outcome \<times> contract_subscription" where
  "contract_ethersListener eventName l once args s =
     (case contract_try eventName l once args s of
        (Threw error, s') \<Rightarrow>
          emitErrorEvent (Error (''Listener function with error: '' @ message_of error))
            eventName s'
      | (Returned, s') \<Rightarrow> (Returned, s'))"

definition addContractEventListener ::
  "string \<Rightarrow> callback \<Rightarrow> bool \<Rightarrow> contract_subscription \<Rightarrow> outcome \<times> contract_subscription" where
  "addContractEventListener eventName l once s =
     addEventListener eventName (ContractListener (fresh s) eventName l once)
       (s\<lparr>fresh := Suc (fresh s)\<rparr>)"

definition contract_addListener ::
  "string \<Rightarrow> callback \<Rightarrow> bool \<Rightarrow> contract_subscription \<Rightarrow> outcome \<times> contract_subscription" where
  "contract_addListener eventName l once s =
     (if \<not> isEventValid eventName s then
        (Threw (Error (''Event '' @ apostrophe @ eventName @ apostrophe @ '' not found.'')), s)
      else if eventName = ''error'' \<and> once then
        (Threw (Error ''Use on() function to subscribe to an error event.''), s)
      else if eventName = ''error'' then (Returned, addErrorListener l s)
      else addContractEventListener eventName l once s)"

definition contract_on :: "string \<Rightarrow> callback \<Rightarrow> contract_subscription \<Rightarrow> outcome \<times> contract_subscription" where
  "contract_on eventName l s = contract_addListener eventName l False s"

definition contract_once :: "string \<Rightarrow> callback \<Rightarrow> contract_subscription \<Rightarrow> outcome \<times> contract_subscription" where
  "contract_once eventName l s = contract_addListener eventName l True s"

text \<open>
  The contract fires the event \<open>tag\<close>: the emitter calls every handler attached under
  that name at that moment, in the order of attachment, with the same arguments.
\<close>

fun run_event_handlers ::
  "listener list \<Rightarrow> arg list \<Rightarrow> contract_subscription \<Rightarrow> outcome list \<times> contract_subscription" where
  "run_event_handlers [] args s = ([], s)"
| "run_event_handlers (ContractListener i n l once # hs) args s =
     (case contract_ethersListener n l once args s of
        (r, s1) \<Rightarrow> (case run_event_handlers hs args s1 of (rs, s2) \<Rightarrow> (r # rs, s2)))"
| "run_event_handlers (h # hs) args s = run_event_handlers hs args s"

definition event_fires ::
  "string \<Rightarrow> arg list \<Rightarrow> contract_subscription \<Rightarrow> outcome list \<times> contract_subscription" where
  "event_fires tag args s =
     run_event_handlers (map snd (filter (\<lambda>a. fst a = tag) (ethersEventEmitter s))) args s"

text \<open>A run of events, and the runs in which the host fires no timer.\<close>

fun tx_run :: "tx_event list \<Rightarrow> transaction_subscription \<Rightarrow> transaction_subscription" where
  "tx_run [] s = s"
| "tx_run (ev # evs) s = tx_run evs (tx_step ev s)"

fun isTimerFires :: "tx_event \<Rightarrow> bool" where
  "isTimerFires (TimerFires i) = True"
| "isTimerFires ev = False"

definition no_timer_fires :: "tx_event list \<Rightarrow> bool" where
  "no_timer_fires evs = (filter isTimerFires evs = [])"

text \<open>
  Which events call \<^verbatim>\<open>off(n)\<close>. \<^verbatim>\<open>off\<close> itself does when the names agree.
  \<^verbatim>\<open>unsubscribe\<close> calls it for every registered name in turn, so it reaches \<open>n\<close>
  when \<open>n\<close> is the first name, or a later one and the calls before it return (they do
  not where \<^verbatim>\<open>event\<close> is undeclared). A block arrival does when an attached
  confirmation closure captured \<^verbatim>\<open>once = true\<close>, and then the name is
  \<^verbatim>\<open>"confirmation"\<close>; a contract event does when an attached closure captured
  \<^verbatim>\<open>once = true\<close> and that name, and the arguments are not empty. No other event
  does. \<open>tx_no_off n evs s\<close> and \<open>contract_no_off n evs s\<close>: in the run of \<open>evs\<close>
  from \<open>s\<close> no event calls \<^verbatim>\<open>off(n)\<close>. The events of a contract subscription are
  those of a transaction subscription without the timeout and the timers, with the
  contract's event in place of the block.
\<close>

definition unsubscribe_calls_off :: "string \<Rightarrow> 'a subscription_scheme \<Rightarrow> bool" where
  "unsubscribe_calls_off n s =
     (case subscribedEventNames s of
        [] \<Rightarrow> False
      | first # others \<Rightarrow>
          first = n \<or> (n \<in> set others \<and> (case global_event s of Undeclared \<Rightarrow> False | Declared b \<Rightarrow> True)))"

fun detaches_confirmation :: "listener \<Rightarrow> bool" where
  "detaches_confirmation (ConfirmationListener i l once) = once"
| "detaches_confirmation h = False"

fun tx_calls_off :: "string \<Rightarrow> tx_event \<Rightarrow> transaction_subscription \<Rightarrow> bool" where
  "tx_calls_off n (Off m) s = (m = n)"
| "tx_calls_off n Unsubscribe s = unsubscribe_calls_off n s"
| "tx_calls_off n (BlockArrival chain) s =
     (n = ''confirmation'' \<and>
      list_ex detaches_confirmation
        (map snd (filter (\<lambda>a. fst a = ''block'') (ethersEventEmitter s))))"
| "tx_calls_off n ev s = False"

fun tx_no_off :: "string \<Rightarrow> tx_event list \<Rightarrow> transaction_subscription \<Rightarrow> bool" where
  "tx_no_off n [] s = True"
| "tx_no_off n (ev # evs) s = (\<not> tx_calls_off n ev s \<and> tx_no_off n evs (tx_step ev s))"

datatype contract_event =
    COn string callback
  | COnce string callback
  | COff string
  | CUnsubscribe
  | CEmitErrorEvent exn string
  | CAddErrorListener callback
  | CAddEventListener string listener
  | CEventFires string "arg list"

fun contract_step :: "contract_event \<Rightarrow> contract_subscription \<Rightarrow> contract_subscription" where
  "contract_step (COn n l) s = snd (contract_on n l s)"
| "contract_step (COnce n l) s = snd (contract_once n l s)"
| "contract_step (COff n) s = snd (off n s)"
| "contract_step CUnsubscribe s = snd (unsubscribe s)"
| "contract_step (CEmitErrorEvent e n) s = snd (emitErrorEvent e n s)"
| "contract_step (CAddErrorListener l) s = addErrorListener l s"
| "contract_step (CAddEventListener n l) s = snd (addEventListener n l s)"
| "contract_step (CEventFires tag args) s = snd (event_fires tag args s)"

fun contract_run :: "contract_event list \<Rightarrow> contract_subscription \<Rightarrow> contract_subscription" where
  "contract_run [] s = s"
| "contract_run (ev # evs) s = contract_run evs (contract_step ev s)"

fun detaches :: "string \<Rightarrow> listener \<Rightarrow> bool" where
  "detaches n (ContractListener i m l once) = (once \<and> m = n)"
| "detaches n h = False"

fun contract_calls_off :: "string \<Rightarrow> contract_event \<Rightarrow> contract_subscription \<Rightarrow> bool" where
  "contract_calls_off n (COff m) s = (m = n)"
| "contract_calls_off n CUnsubscribe s = unsubscribe_calls_off n s"
| "contract_calls_off n (CEventFires tag args) s =
     (args \<noteq> [] \<and>
      list_ex (detaches n) (map snd (filter (\<lambda>a. fst a = tag) (ethersEventEmitter s))))"
| "contract_calls_off n ev s = False"

fun contract_no_off :: "string \<Rightarrow> contract_event list \<Rightarrow> contract_subscription \<Rightarrow> bool" where
  "contract_no_off n [] s = True"
| "contract_no_off n (ev # evs) s =
     (\<not> contract_calls_off n ev s \<and> contract_no_off n evs (contract_step ev s))"

section \<open>Example collaborators\<close>

text \<open>
  A listener that returns and one that throws; a transaction promise that resolves; a
  chain on which the transaction is mined with one confirmation, and one on which no
  receipt is found.
\<close>

definition returns :: "message \<Rightarrow> exn option" where
  "returns m = None"

definition throws_boom :: "message \<Rightarrow> exn option" where
  "throws_boom m = Some (Error ''boom'')"

definition sent :: "tx_response promise" where
  "sent = Resolves \<lparr>hash = ''0x01''\<rparr>"

definition mined :: "string \<Rightarrow> receipt option promise" where
  "mined h = Resolves (Some \<lparr>confirmations = 1\<rparr>)"

definition not_found :: "string \<Rightarrow> receipt option promise" where
  "not_found h = Resolves None"

text \<open>
  A subscription under Node.js with an error listener of behaviour \<open>g\<close> and a
  confirmation listener registered with \<^verbatim>\<open>on\<close>, after a first block at which the
  transaction was mined; and one whose two listeners throw, before any block.
\<close>

definition confirmed_subscription :: "(message \<Rightarrow> exn option) \<Rightarrow> transaction_subscription" where
  "confirmed_subscription g =
     snd (block_arrival mined
       (snd (tx_on ''confirmation'' (Function 1 returns)
         (snd (tx_on ''error'' (Function 2 g)
           (new_TransactionSubscription sent not_found 2000 Undeclared))))))"

definition throwing_subscription :: transaction_subscription where
  "throwing_subscription =
     snd (tx_on ''confirmation'' (Function 1 throws_boom)
       (snd (tx_on ''error'' (Function 2 throws_boom)
         (new_TransactionSubscription sent mined 2000 Undeclared))))"

text \<open>An error listener that throws when given the displacement error and returns otherwise.\<close>

definition throws_on_displacement :: "message \<Rightarrow> exn option" where
  "throws_on_displacement m =
     (case m of
        ErrorMessage (Error text) n \<Rightarrow>
          if text = ''Your message has been included in an uncle block.''
          then Some (Error ''boom'') else None
      | _ \<Rightarrow> None)"

section \<open>Evaluation and frame lemmas\<close>

lemmas evaluate = off_def Let_def emitErrorEvent_def addErrorListener_def addEventListener_def
  subscribedEventNames_def mapKeys_def toEthersEventName_def emitter_on_def unsubscribe_def
  new_Subscription_def new_TransactionSubscription_def getEventsTimeout_def setEventsTimeout_def
  confirmation_try_def confirmation_ethersListener_def timeout_callback_def
  addConfirmationListener_def tx_addListener_def tx_on_def tx_once_def fire_timer_def
  block_arrival_def new_ContractSubscription_def isEventValid_def contract_try_def
  contract_ethersListener_def addContractEventListener_def contract_addListener_def
  contract_on_def contract_once_def event_fires_def apostrophe_def
  returns_def throws_boom_def sent_def mined_def not_found_def
  confirmed_subscription_def throwing_subscription_def
  unsubscribe_calls_off_def throws_on_displacement_def

lemma mapGet_mapSet_same: "mapGet (mapSet k v m) k = Some v"
  by (induction m) auto

lemma mapGet_mapDelete_other: "k' \<noteq> k \<Longrightarrow> mapGet (mapDelete k m) k' = mapGet m k'"
  by (induction m) auto

text \<open>What each method leaves alone.\<close>

lemma off_frame:
  "txConfirmed (snd (off n s)) = txConfirmed s"
  "timers (snd (off n s)) = timers s"
  "calls (snd (off n s)) = calls s"
  "tx (snd (off n s)) = tx s"
  "txPromise (snd (off n s)) = txPromise s"
  "provider (snd (off n s)) = provider s"
  by (simp_all add: off_def Let_def split: binding.splits option.splits)

lemma call_frame:
  "txConfirmed (snd (call l m s)) = txConfirmed s"
  "timers (snd (call l m s)) = timers s"
  by (cases l; simp)+

lemma emitErrorEvent_frame:
  "txConfirmed (snd (emitErrorEvent e n s)) = txConfirmed s"
  "timers (snd (emitErrorEvent e n s)) = timers s"
  by (simp_all add: emitErrorEvent_def call_frame split: option.splits listener.splits)

lemma forEach_off_frame:
  "txConfirmed (snd (forEach_off ns s)) = txConfirmed s \<and> timers (snd (forEach_off ns s)) = timers s"
proof (induction ns arbitrary: s)
  case Nil
  show ?case by simp
next
  case (Cons n ns)
  show ?case
  proof (cases "off n s")
    case (Pair r s')
    have "txConfirmed s' = txConfirmed s" "timers s' = timers s"
      using off_frame(1,2) [where n = n and s = s] Pair by simp_all
    then show ?thesis using Cons.IH [of s'] Cons.IH [of s] Pair by (cases r) simp_all
  qed
qed

lemma confirmation_try_frame:
  "txConfirmed s \<longrightarrow> txConfirmed (snd (confirmation_try l once s))"
  "timers (snd (confirmation_try l once s)) = timers s"
proof -
  obtain r s1 where o: "(if once then off ''confirmation'' s else (Returned, s)) = (r, s1)"
    by (cases "(if once then off ''confirmation'' s else (Returned, s))") auto
  have c1: "txConfirmed s1 = txConfirmed s" "timers s1 = timers s"
    using o off_frame(1,2) [where n = "''confirmation''" and s = s] by (auto split: if_splits)
  show "txConfirmed s \<longrightarrow> txConfirmed (snd (confirmation_try l once s))"
    using c1 o
    by (cases r)
       (auto simp: confirmation_try_def emitErrorEvent_frame call_frame
             split: option.splits promise.splits)
  show "timers (snd (confirmation_try l once s)) = timers s"
    using c1 o
    by (cases r)
       (auto simp: confirmation_try_def emitErrorEvent_frame call_frame
             split: option.splits promise.splits)
qed

lemma confirmation_ethersListener_frame:
  "txConfirmed s \<longrightarrow> txConfirmed (snd (confirmation_ethersListener l once s))"
  "timers (snd (confirmation_ethersListener l once s)) = timers s"
  using confirmation_try_frame [where s = s and l = l and once = once]
  by (cases "confirmation_try l once s";
      auto simp: confirmation_ethersListener_def emitErrorEvent_frame split: outcome.splits)+

lemma run_block_handlers_frame:
  "(txConfirmed s \<longrightarrow> txConfirmed (snd (run_block_handlers hs s))) \<and>
   timers (snd (run_block_handlers hs s)) = timers s"
proof (induction hs s rule: run_block_handlers.induct)
  case (1 s)
  show ?case by simp
next
  case (2 i l once hs s)
  obtain r s1 where a: "confirmation_ethersListener l once s = (r, s1)"
    by (cases "confirmation_ethersListener l once s") auto
  have b: "txConfirmed s \<longrightarrow> txConfirmed s1" "timers s1 = timers s"
    using confirmation_ethersListener_frame [where s = s and l = l and once = once] a by simp_all
  show ?case using 2 [OF a [symmetric]] a b
    by (cases "run_block_handlers hs s1") auto
qed simp_all

lemma block_arrival_frame:
  "txConfirmed s \<longrightarrow> txConfirmed (snd (block_arrival chain s))"
  "timers (snd (block_arrival chain s)) = timers s"
  using run_block_handlers_frame
    [where s = "s\<lparr>provider := chain\<rparr>"
       and hs = "map snd (filter (\<lambda>a. fst a = ''block'') (ethersEventEmitter s))"]
  by (simp_all add: block_arrival_def)

lemma addEventListener_frame:
  "txConfirmed (snd (addEventListener n l s)) = txConfirmed s"
  "timers (snd (addEventListener n l s)) = timers s"
  "timeout (snd (addEventListener n l s)) = timeout s"
  by (simp_all add: addEventListener_def)

lemma addConfirmationListener_frame:
  "txConfirmed (snd (addConfirmationListener l once s)) = txConfirmed s"
  "prefix (timers s) (timers (snd (addConfirmationListener l once s)))"
  using addEventListener_frame [where n = "''confirmation''"
      and l = "ConfirmationListener (fresh s) l once" and s = "s\<lparr>fresh := Suc (fresh s)\<rparr>"]
  by (cases "addEventListener ''confirmation'' (ConfirmationListener (fresh s) l once) (s\<lparr>fresh := Suc (fresh s)\<rparr>)";
      auto simp: addConfirmationListener_def Let_def split: outcome.splits)+

lemma tx_addListener_frame:
  "txConfirmed (snd (tx_addListener n l once s)) = txConfirmed s"
  "prefix (timers s) (timers (snd (tx_addListener n l once s)))"
  by (simp_all add: tx_addListener_def addConfirmationListener_frame addErrorListener_def)

lemma fire_timer_txConfirmed: "txConfirmed (snd (fire_timer i s)) = txConfirmed s"
  by (simp add: fire_timer_def timeout_callback_def emitErrorEvent_frame)

lemma tx_step_txConfirmed: "txConfirmed s \<Longrightarrow> txConfirmed (tx_step ev s)"
  using block_arrival_frame(1) [where s = s]
  by (cases ev)
     (simp_all add: tx_on_def tx_once_def tx_addListener_frame off_frame unsubscribe_def
        forEach_off_frame setEventsTimeout_def emitErrorEvent_frame addErrorListener_def
        addEventListener_frame fire_timer_txConfirmed)

lemma tx_step_timers: "\<not> isTimerFires ev \<Longrightarrow> prefix (timers s) (timers (tx_step ev s))"
  by (cases ev)
     (simp_all add: tx_on_def tx_once_def tx_addListener_frame off_frame unsubscribe_def
        forEach_off_frame setEventsTimeout_def emitErrorEvent_frame addErrorListener_def
        addEventListener_frame block_arrival_frame)

lemma tx_run_timers: "no_timer_fires evs \<Longrightarrow> prefix (timers s) (timers (tx_run evs s))"
proof (induction evs arbitrary: s)
  case Nil
  show ?case by simp
next
  case (Cons ev evs)
  have a: "\<not> isTimerFires ev" "no_timer_fires evs"
    using Cons.prems by (auto simp: no_timer_fires_def split: if_splits)
  have "prefix (timers s) (timers (tx_step ev s))" using a(1) by (rule tx_step_timers)
  moreover have "prefix (timers (tx_step ev s)) (timers (tx_run evs (tx_step ev s)))"
    using a(2) by (rule Cons.IH)
  ultimately show ?case by (auto intro: prefix_order.trans)
qed

lemma tx_trace_confirmed:
  "txConfirmed s \<Longrightarrow> s' \<in> set (tx_trace evs s) \<Longrightarrow> txConfirmed s'"
proof (induction evs arbitrary: s)
  case Nil
  then show ?case by simp
next
  case (Cons ev evs)
  have "txConfirmed (tx_step ev s)" using Cons.prems(1) tx_step_txConfirmed [of s ev] by simp
  then show ?case using Cons by auto
qed


lemma tx_addListener_confirmation_timers:
  assumes "tx_addListener ''confirmation'' l once s = (Returned, s1)"
  shows "timers s1 = timers s @ [(getEventsTimeout s, ''confirmation'')]"
  using assms
  by (auto simp: tx_addListener_def addConfirmationListener_def addEventListener_def Let_def
        getEventsTimeout_def split: if_splits)

text \<open>What each method leaves in the registry under a name it does not detach.\<close>

lemma mapGet_mapSet_other: "k' \<noteq> k \<Longrightarrow> mapGet (mapSet k v m) k' = mapGet m k'"
  by (induction m) auto

lemma mapGet_Some_key: "mapGet m k = Some v \<Longrightarrow> k \<in> set (mapKeys m)"
  by (induction m) (auto simp: mapKeys_def split: if_splits)

lemma off_entry:
  "m \<noteq> n \<Longrightarrow> mapGet (eventListeners (snd (off m s))) n = mapGet (eventListeners s) n"
  by (simp add: off_def Let_def mapGet_mapDelete_other split: binding.splits option.splits)

lemma call_registry: "eventListeners (snd (call l m s)) = eventListeners s"
  by (cases l) simp_all

lemma emitErrorEvent_registry: "eventListeners (snd (emitErrorEvent e k s)) = eventListeners s"
  by (simp add: emitErrorEvent_def call_registry split: option.splits listener.splits)

lemma addErrorListener_entry:
  "n \<noteq> ''error'' \<Longrightarrow> mapGet (eventListeners (addErrorListener l s)) n = mapGet (eventListeners s) n"
  by (simp add: addErrorListener_def mapGet_mapSet_other)

lemma addEventListener_entry:
  assumes "mapGet (eventListeners s) n = Some l1"
  shows "mapGet (eventListeners (snd (addEventListener m l s))) n = Some l1"
proof (cases "m = n")
  case True
  then show ?thesis
    using assms mapGet_Some_key [OF assms]
    by (auto simp: addEventListener_def subscribedEventNames_def)
next
  case False
  then show ?thesis using assms by (simp add: addEventListener_def mapGet_mapSet_other)
qed

lemma fire_timer_registry: "eventListeners (snd (fire_timer i s)) = eventListeners s"
  by (simp add: fire_timer_def timeout_callback_def emitErrorEvent_registry)

lemma forEach_off_undeclared:
  "global_event s = Undeclared \<Longrightarrow> snd (forEach_off ks s) = s"
  by (induction ks) (simp_all add: off_def)

lemma unsubscribe_entry:
  assumes "mapGet (eventListeners s) n = Some l1" and "\<not> unsubscribe_calls_off n s"
  shows "mapGet (eventListeners (snd (unsubscribe s))) n = Some l1"
proof -
  have k: "n \<in> set (subscribedEventNames s)"
    using mapGet_Some_key [OF assms(1)] by (simp add: subscribedEventNames_def)
  have "global_event s = Undeclared"
    using assms(2) k
    by (cases "subscribedEventNames s"; cases "global_event s")
       (auto simp: unsubscribe_calls_off_def)
  then show ?thesis using assms(1) by (simp add: unsubscribe_def forEach_off_undeclared)
qed

lemma addConfirmationListener_entry:
  assumes "mapGet (eventListeners s) n = Some l1"
  shows "mapGet (eventListeners (snd (addConfirmationListener l once s))) n = Some l1"
proof -
  let ?s0 = "s\<lparr>fresh := Suc (fresh s)\<rparr>"
  have "mapGet (eventListeners ?s0) n = Some l1" using assms by simp
  then have "mapGet (eventListeners (snd (addEventListener ''confirmation''
                (ConfirmationListener (fresh s) l once) ?s0))) n = Some l1"
    by (rule addEventListener_entry)
  then show ?thesis
    by (cases "addEventListener ''confirmation'' (ConfirmationListener (fresh s) l once) ?s0")
       (auto simp: addConfirmationListener_def Let_def split: outcome.splits)
qed

lemma tx_addListener_entry:
  assumes "n \<noteq> ''error''" and "mapGet (eventListeners s) n = Some l1"
  shows "mapGet (eventListeners (snd (tx_addListener m l once s))) n = Some l1"
  using assms
  by (simp add: tx_addListener_def addErrorListener_entry addConfirmationListener_entry)

lemma confirmation_try_entry:
  assumes "\<not> (once \<and> n = ''confirmation'')"
  shows "mapGet (eventListeners (snd (confirmation_try l once s))) n = mapGet (eventListeners s) n"
proof -
  obtain r s1 where o: "(if once then off ''confirmation'' s else (Returned, s)) = (r, s1)"
    by (cases "(if once then off ''confirmation'' s else (Returned, s))") auto
  have c1: "mapGet (eventListeners s1) n = mapGet (eventListeners s) n"
    using o assms off_entry [where m = "''confirmation''" and n = n and s = s]
    by (auto split: if_splits)
  show ?thesis
    using c1 o
    by (cases r)
       (auto simp: confirmation_try_def emitErrorEvent_registry call_registry
             split: option.splits promise.splits)
qed

lemma confirmation_ethersListener_entry:
  assumes "\<not> (once \<and> n = ''confirmation'')"
  shows "mapGet (eventListeners (snd (confirmation_ethersListener l once s))) n
           = mapGet (eventListeners s) n"
  using confirmation_try_entry [OF assms, of l s]
  by (cases "confirmation_try l once s")
     (auto simp: confirmation_ethersListener_def emitErrorEvent_registry split: outcome.splits)

lemma run_block_handlers_entry:
  "\<not> (n = ''confirmation'' \<and> list_ex detaches_confirmation hs) \<Longrightarrow>
   mapGet (eventListeners (snd (run_block_handlers hs s))) n = mapGet (eventListeners s) n"
proof (induction hs s rule: run_block_handlers.induct)
  case (1 s)
  show ?case by simp
next
  case (2 i l once hs s)
  obtain r s1 where a: "confirmation_ethersListener l once s = (r, s1)"
    by (cases "confirmation_ethersListener l once s") auto
  have q: "\<not> (once \<and> n = ''confirmation'')" using 2(2) by auto
  have b: "mapGet (eventListeners s1) n = mapGet (eventListeners s) n"
    using confirmation_ethersListener_entry [OF q, of l s] a by simp
  have c: "\<not> (n = ''confirmation'' \<and> list_ex detaches_confirmation hs)" using 2(2) by auto
  show ?case using 2(1) [OF a [symmetric] c] a b
    by (cases "run_block_handlers hs s1") auto
qed simp_all

lemma block_arrival_entry:
  assumes "\<not> tx_calls_off n (BlockArrival chain) s"
  shows "mapGet (eventListeners (snd (block_arrival chain s))) n = mapGet (eventListeners s) n"
  using assms run_block_handlers_entry
    [where n = n and s = "s\<lparr>provider := chain\<rparr>"
       and hs = "map snd (filter (\<lambda>a. fst a = ''block'') (ethersEventEmitter s))"]
  by (simp add: block_arrival_def)

lemma tx_step_entry:
  assumes "n \<noteq> ''error''" and "mapGet (eventListeners s) n = Some l1"
      and "\<not> tx_calls_off n ev s"
  shows "mapGet (eventListeners (tx_step ev s)) n = Some l1"
proof (cases ev)
  case (BlockArrival chain)
  then show ?thesis using assms block_arrival_entry [of n chain s] by simp
next
  case Unsubscribe
  then show ?thesis using assms unsubscribe_entry [of s n l1] by simp
next
  case (AddEventListener m l)
  then show ?thesis using assms addEventListener_entry [of s n l1 m l] by simp
qed (use assms in \<open>simp_all add: tx_on_def tx_once_def tx_addListener_entry off_entry
       setEventsTimeout_def emitErrorEvent_registry addErrorListener_entry fire_timer_registry\<close>)

lemma tx_run_entry:
  "n \<noteq> ''error'' \<Longrightarrow> mapGet (eventListeners s) n = Some l1 \<Longrightarrow> tx_no_off n evs s \<Longrightarrow>
   mapGet (eventListeners (tx_run evs s)) n = Some l1"
proof (induction evs arbitrary: s)
  case Nil
  then show ?case by simp
next
  case (Cons ev evs)
  have "mapGet (eventListeners (tx_step ev s)) n = Some l1"
    using Cons.prems by (auto intro: tx_step_entry)
  then show ?case using Cons by simp
qed

lemma addEventListener_Returned_entry:
  "addEventListener n l1 s = (Returned, s1) \<Longrightarrow> mapGet (eventListeners s1) n = Some l1"
  by (auto simp: addEventListener_def mapGet_mapSet_same split: if_splits)

lemma addEventListener_entry_fails:
  assumes "n \<noteq> ''error''" and "mapGet (eventListeners s) n = Some l1"
  shows "addEventListener n l2 s =
           (Threw (Error (''A listener for event '' @ apostrophe @ n @ apostrophe @
                          '' is already registered.'')), s)"
  using assms(1) mapGet_Some_key [OF assms(2)]
  by (simp add: addEventListener_def subscribedEventNames_def)

lemma contract_try_entry:
  assumes "\<not> (args \<noteq> [] \<and> once \<and> m = n)"
  shows "mapGet (eventListeners (snd (contract_try m l once args s))) n = mapGet (eventListeners s) n"
proof (cases "args = []")
  case True
  then show ?thesis by (simp add: contract_try_def)
next
  case False
  obtain r s1 where o: "(if once then off m s else (Returned, s)) = (r, s1)"
    by (cases "(if once then off m s else (Returned, s))") auto
  have c1: "mapGet (eventListeners s1) n = mapGet (eventListeners s) n"
    using o assms False off_entry [where m = m and n = n and s = s]
    by (auto split: if_splits)
  show ?thesis
    using c1 o False
    by (cases r) (auto simp: contract_try_def Let_def call_registry)
qed

lemma contract_ethersListener_entry:
  assumes "\<not> (args \<noteq> [] \<and> once \<and> m = n)"
  shows "mapGet (eventListeners (snd (contract_ethersListener m l once args s))) n
           = mapGet (eventListeners s) n"
  using contract_try_entry [OF assms, of l s]
  by (cases "contract_try m l once args s")
     (auto simp: contract_ethersListener_def emitErrorEvent_registry split: outcome.splits)

lemma run_event_handlers_entry:
  "\<not> (args \<noteq> [] \<and> list_ex (detaches n) hs) \<Longrightarrow>
   mapGet (eventListeners (snd (run_event_handlers hs args s))) n = mapGet (eventListeners s) n"
proof (induction hs args s rule: run_event_handlers.induct)
  case (1 args s)
  show ?case by simp
next
  case (2 i m l once hs args s)
  obtain r s1 where a: "contract_ethersListener m l once args s = (r, s1)"
    by (cases "contract_ethersListener m l once args s") auto
  have q: "\<not> (args \<noteq> [] \<and> once \<and> m = n)" using 2(2) by auto
  have b: "mapGet (eventListeners s1) n = mapGet (eventListeners s) n"
    using contract_ethersListener_entry [OF q, of l s] a by simp
  have c: "\<not> (args \<noteq> [] \<and> list_ex (detaches n) hs)" using 2(2) by auto
  show ?case using 2(1) [OF a [symmetric] c] a b
    by (cases "run_event_handlers hs args s1") auto
qed simp_all

lemma event_fires_entry:
  assumes "\<not> contract_calls_off n (CEventFires tag args) s"
  shows "mapGet (eventListeners (snd (event_fires tag args s))) n = mapGet (eventListeners s) n"
  using assms run_event_handlers_entry
    [where n = n and s = s and args = args
       and hs = "map snd (filter (\<lambda>a. fst a = tag) (ethersEventEmitter s))"]
  by (simp add: event_fires_def)

lemma addContractEventListener_entry:
  assumes "mapGet (eventListeners s) n = Some l1"
  shows "mapGet (eventListeners (snd (addContractEventListener m l once s))) n = Some l1"
proof -
  have "mapGet (eventListeners (s\<lparr>fresh := Suc (fresh s)\<rparr>)) n = Some l1" using assms by simp
  then show ?thesis unfolding addContractEventListener_def by (rule addEventListener_entry)
qed

lemma contract_addListener_entry:
  assumes "n \<noteq> ''error''" and "mapGet (eventListeners s) n = Some l1"
  shows "mapGet (eventListeners (snd (contract_addListener m l once s))) n = Some l1"
  using assms
  by (simp add: contract_addListener_def addErrorListener_entry addContractEventListener_entry)

lemma contract_step_entry:
  assumes "n \<noteq> ''error''" and "mapGet (eventListeners s) n = Some l1"
      and "\<not> contract_calls_off n ev s"
  shows "mapGet (eventListeners (contract_step ev s)) n = Some l1"
proof (cases ev)
  case (CEventFires tag args)
  then show ?thesis using assms event_fires_entry [of n tag args s] by simp
next
  case CUnsubscribe
  then show ?thesis using assms unsubscribe_entry [of s n l1] by simp
next
  case (CAddEventListener m l)
  then show ?thesis using assms addEventListener_entry [of s n l1 m l] by simp
qed (use assms in \<open>simp_all add: contract_on_def contract_once_def contract_addListener_entry
       off_entry emitErrorEvent_registry addErrorListener_entry\<close>)

lemma contract_run_entry:
  "n \<noteq> ''error'' \<Longrightarrow> mapGet (eventListeners s) n = Some l1 \<Longrightarrow> contract_no_off n evs s \<Longrightarrow>
   mapGet (eventListeners (contract_run evs s)) n = Some l1"
proof (induction evs arbitrary: s)
  case Nil
  then show ?case by simp
next
  case (Cons ev evs)
  have "mapGet (eventListeners (contract_step ev s)) n = Some l1"
    using Cons.prems by (auto intro: contract_step_entry)
  then show ?case using Cons by simp
qed

section \<open>One-shot confirmation (C1)\<close>

text \<open>
  C1. The claim: when the transaction is mined with receipt \<^verbatim>\<open>{confirmations: 1}\<close> by
  the first block, a confirmation listener registered with \<^verbatim>\<open>once\<close> is invoked
  exactly once with \<^verbatim>\<open>{data: {confirmations: 1}}\<close> and is detached afterwards. What
  the code does under Node.js: the closure's first statement calls \<^verbatim>\<open>off\<close>, which
  throws a ReferenceError on \<^verbatim>\<open>event\<close>; the \<^verbatim>\<open>catch\<close> reports it, the listener is
  never invoked and \<^verbatim>\<open>"confirmation"\<close> stays registered.
\<close>

theorem once_confirmation_in_node:
  "fst (tx_once ''confirmation'' (Function 1 returns)
          (new_TransactionSubscription sent not_found 2000 Undeclared)) = Returned
   \<and> fst (block_arrival mined (snd (tx_once ''confirmation'' (Function 1 returns)
          (new_TransactionSubscription sent not_found 2000 Undeclared)))) = [Returned]
   \<and> calls (snd (block_arrival mined (snd (tx_once ''confirmation'' (Function 1 returns)
          (new_TransactionSubscription sent not_found 2000 Undeclared))))) = []
   \<and> subscribedEventNames (snd (block_arrival mined (snd (tx_once ''confirmation'' (Function 1 returns)
          (new_TransactionSubscription sent not_found 2000 Undeclared))))) = [''confirmation'']
   \<and> console (snd (block_arrival mined (snd (tx_once ''confirmation'' (Function 1 returns)
          (new_TransactionSubscription sent not_found 2000 Undeclared))))) =
       [''Error emission without listener: Error: Listener function with error: event is not defined'']"
  by (simp add: evaluate)

text \<open>
  In a browser outside a DOM event \<^verbatim>\<open>off\<close> only warns: the listener is invoked, but
  at every block, and is never detached.
\<close>

lemma once_confirmation_in_browser:
  "calls (snd (block_arrival mined (snd (block_arrival mined
      (snd (tx_once ''confirmation'' (Function 1 returns)
          (new_TransactionSubscription sent not_found 2000 (Declared False)))))))) =
       [(1, ConfirmationMessage 1), (1, ConfirmationMessage 1)]
   \<and> subscribedEventNames (snd (block_arrival mined (snd (block_arrival mined
      (snd (tx_once ''confirmation'' (Function 1 returns)
          (new_TransactionSubscription sent not_found 2000 (Declared False)))))))) =
       [''confirmation'']"
  by (simp add: evaluate)

section \<open>\<^verbatim>\<open>off\<close> without a registered listener (C2)\<close>

text \<open>
  C2. The claim: \<^verbatim>\<open>off(n)\<close> for a name with no registered listener never throws; it
  logs a warning and returns, the registry unchanged. What the code does under Node.js on
  a new subscription: it throws the ReferenceError and logs nothing.
\<close>

theorem off_unregistered_in_node:
  "off ''confirmation'' (new_Subscription [] Undeclared) =
     (Threw (ReferenceError ''event''), new_Subscription [] Undeclared)
   \<and> console (snd (off ''confirmation'' (new_Subscription [] Undeclared))) = []"
  by (simp add: evaluate)

text \<open>Where the global \<^verbatim>\<open>event\<close> is declared and falsy, the claim's behaviour is the code's.\<close>

lemma off_unregistered_in_browser:
  "global_event s = Declared False \<Longrightarrow>
   off n s = (Returned, s\<lparr>console := console s @
     [''A listener for event '' @ apostrophe @ n @ apostrophe @ '' isn'' @ apostrophe @ ''t registered.'']\<rparr>)"
  by (simp add: off_def)

section \<open>\<^verbatim>\<open>unsubscribe\<close> (C3)\<close>

text \<open>
  C3. The claim: \<^verbatim>\<open>unsubscribe()\<close> terminates normally in any state and leaves
  \<^verbatim>\<open>subscribedEventNames()\<close> empty. What the code does with one error listener
  registered: under Node.js the first \<^verbatim>\<open>off\<close> throws out of \<^verbatim>\<open>forEach\<close>; in a
  browser outside a DOM event it returns; in both the listener is still registered.
\<close>

theorem unsubscribe_with_error_listener:
  "unsubscribe (addErrorListener (Function 1 returns) (new_Subscription [] Undeclared)) =
     (Threw (ReferenceError ''event''),
      addErrorListener (Function 1 returns) (new_Subscription [] Undeclared))
   \<and> subscribedEventNames (snd (unsubscribe
        (addErrorListener (Function 1 returns) (new_Subscription [] Undeclared)))) = [''error'']
   \<and> fst (unsubscribe
        (addErrorListener (Function 1 returns) (new_Subscription [] (Declared False)))) = Returned
   \<and> subscribedEventNames (snd (unsubscribe
        (addErrorListener (Function 1 returns) (new_Subscription [] (Declared False))))) = [''error'']"
  by (simp add: evaluate)

section \<open>The timeout (C4)\<close>

text \<open>
  C4. Registering a confirmation listener (\<^verbatim>\<open>on\<close> or \<^verbatim>\<open>once\<close>) arms one timer
  whose delay is \<^verbatim>\<open>getEventsTimeout()\<close> at that moment. Whatever happens next short
  of a timer firing (blocks with or without a receipt, so also a confirmation that
  succeeded; \<^verbatim>\<open>off\<close>; \<^verbatim>\<open>unsubscribe\<close>), the timer is still pending at the same
  place with the same delay, and when the host fires it the timeout error goes through
  \<^verbatim>\<open>_emitErrorEvent\<close>: nothing cancels it and its callback tests nothing. Time itself
  is the host's: the model keeps the delay the timer was armed with.
\<close>

theorem timeout_never_cancelled:
  assumes reg: "tx_addListener ''confirmation'' l once s = (Returned, s1)"
      and evs: "no_timer_fires evs"
  shows "timers s1 = timers s @ [(getEventsTimeout s, ''confirmation'')]
       \<and> length (timers s) < length (timers (tx_run evs s1))
       \<and> timers (tx_run evs s1) ! length (timers s) = (getEventsTimeout s, ''confirmation'')
       \<and> fire_timer (length (timers s)) (tx_run evs s1) =
           emitErrorEvent (Error ''Event confirmation reached timeout.'') ''confirmation''
             ((tx_run evs s1)\<lparr>timers := timers s @ drop (Suc (length (timers s))) (timers (tx_run evs s1))\<rparr>)"
proof -
  have t1: "timers s1 = timers s @ [(getEventsTimeout s, ''confirmation'')]"
    using reg by (rule tx_addListener_confirmation_timers)
  obtain rest where t2: "timers (tx_run evs s1) = timers s1 @ rest"
    using tx_run_timers [OF evs, of s1] by (auto simp: prefix_def)
  have t3: "timers (tx_run evs s1) = timers s @ (getEventsTimeout s, ''confirmation'') # rest"
    using t1 t2 by simp
  have len: "length (timers s) < length (timers (tx_run evs s1))" using t3 by simp
  have nth: "timers (tx_run evs s1) ! length (timers s) = (getEventsTimeout s, ''confirmation'')"
    using t3 by (simp add: nth_append)
  have tk: "take (length (timers s)) (timers (tx_run evs s1)) = timers s" using t3 by simp
  show ?thesis
    using t1 len nth tk by (simp add: fire_timer_def timeout_callback_def)
qed

text \<open>
  The witness: under Node.js, an error listener and a confirmation listener registered
  with \<^verbatim>\<open>on\<close>; the first block finds the receipt and the confirmation is delivered;
  the timer then fires and the error listener receives the timeout error all the same.
  The last conjunct is the run in which no receipt is ever found.
\<close>

theorem timeout_never_cancelled_witness:
  "fst (tx_addListener ''confirmation'' (Function 1 returns) False
          (snd (tx_on ''error'' (Function 2 returns)
             (new_TransactionSubscription sent not_found 2000 Undeclared)))) = Returned
   \<and> no_timer_fires [BlockArrival mined]
   \<and> txConfirmed (tx_run [BlockArrival mined]
        (snd (tx_addListener ''confirmation'' (Function 1 returns) False
          (snd (tx_on ''error'' (Function 2 returns)
             (new_TransactionSubscription sent not_found 2000 Undeclared))))))
   \<and> timers (tx_run [BlockArrival mined]
        (snd (tx_addListener ''confirmation'' (Function 1 returns) False
          (snd (tx_on ''error'' (Function 2 returns)
             (new_TransactionSubscription sent not_found 2000 Undeclared))))))
       = [(2000, ''confirmation'')]
   \<and> calls (snd (fire_timer 0 (tx_run [BlockArrival mined]
        (snd (tx_addListener ''confirmation'' (Function 1 returns) False
          (snd (tx_on ''error'' (Function 2 returns)
             (new_TransactionSubscription sent not_found 2000 Undeclared))))))))
       = [(1, ConfirmationMessage 1),
          (2, ErrorMessage (Error ''Event confirmation reached timeout.'') ''confirmation'')]
   \<and> calls (snd (fire_timer 0 (tx_run [BlockArrival not_found]
        (snd (tx_addListener ''confirmation'' (Function 1 returns) False
          (snd (tx_on ''error'' (Function 2 returns)
             (new_TransactionSubscription sent not_found 2000 Undeclared))))))))
       = [(2, ErrorMessage (Error ''Event confirmation reached timeout.'') ''confirmation'')]"
  using timeout_never_cancelled
    [of "Function 1 returns" False
        "snd (tx_on ''error'' (Function 2 returns)
             (new_TransactionSubscription sent not_found 2000 Undeclared))"
        "snd (tx_addListener ''confirmation'' (Function 1 returns) False
          (snd (tx_on ''error'' (Function 2 returns)
             (new_TransactionSubscription sent not_found 2000 Undeclared))))"
        "[BlockArrival mined]"]
  by (simp add: evaluate no_timer_fires_def)

section \<open>Displacement (C5)\<close>




section \<open>The confirmed flag (C6)\<close>

text \<open>
  C6. Along every run of events of a transaction subscription (registrations, \<^verbatim>\<open>off\<close>,
  \<^verbatim>\<open>unsubscribe\<close>, block arrivals with any answer of the provider, timers, error
  emissions), the values of \<^verbatim>\<open>#txConfirmed\<close> are sorted with \<open>False\<close> before
  \<open>True\<close>: the flag goes from false to true at most once and nothing, the error paths
  of the handler included, sets it back to false.
\<close>

theorem txConfirmed_never_reset: "sorted (map txConfirmed (tx_trace evs s))"
proof (induction evs arbitrary: s)
  case Nil
  show ?case by simp
next
  case (Cons ev evs)
  have "txConfirmed s \<le> txConfirmed s'" if "s' \<in> set (tx_trace evs (tx_step ev s))" for s'
    using that tx_trace_confirmed [of "tx_step ev s" s' evs] tx_step_txConfirmed [of s ev]
    by (cases "txConfirmed s") auto
  then show ?case using Cons.IH [of "tx_step ev s"] by auto
qed

theorem txConfirmed_never_reset_witness:
  "map txConfirmed (tx_trace
     [On ''confirmation'' (Function 1 returns), BlockArrival not_found, BlockArrival mined,
      BlockArrival not_found, TimerFires 0]
     (new_TransactionSubscription sent not_found 2000 Undeclared))
   = [False, False, False, True, True, True]
   \<and> sorted (map txConfirmed (tx_trace
     [On ''confirmation'' (Function 1 returns), BlockArrival not_found, BlockArrival mined,
      BlockArrival not_found, TimerFires 0]
     (new_TransactionSubscription sent not_found 2000 Undeclared)))"
  using txConfirmed_never_reset
    [of "[On ''confirmation'' (Function 1 returns), BlockArrival not_found, BlockArrival mined,
          BlockArrival not_found, TimerFires 0]"
        "new_TransactionSubscription sent not_found 2000 Undeclared"]
  by (simp add: evaluate)

section \<open>Registering twice (C7)\<close>

text \<open>
  C7. For an event name other than \<^verbatim>\<open>"error"\<close>: once \<^verbatim>\<open>_addEventListener\<close> has
  registered a listener for it, then after any run of events of the subscription in which
  nothing calls \<^verbatim>\<open>off\<close> for that name (other registrations, \<^verbatim>\<open>on("error")\<close>,
  \<^verbatim>\<open>off\<close> of other names, blocks, contract events, error emissions, timers),
  registering again for the same name throws the error "A listener for event ... is
  already registered." and changes nothing: the first listener is still the one
  registered. Stated for both kinds of subscription.
\<close>

theorem addEventListener_twice:
  assumes ne: "n \<noteq> ''error''"
      and first: "addEventListener n l1 s = (Returned, s1)"
      and between: "tx_no_off n evs s1"
      and cne: "m \<noteq> ''error''"
      and cfirst: "addEventListener m k1 c = (Returned, c1)"
      and cbetween: "contract_no_off m cevs c1"
  shows "addEventListener n l2 (tx_run evs s1) =
           (Threw (Error (''A listener for event '' @ apostrophe @ n @ apostrophe @
                          '' is already registered.'')), tx_run evs s1)
       \<and> mapGet (eventListeners (tx_run evs s1)) n = Some l1
       \<and> addEventListener m k2 (contract_run cevs c1) =
           (Threw (Error (''A listener for event '' @ apostrophe @ m @ apostrophe @
                          '' is already registered.'')), contract_run cevs c1)
       \<and> mapGet (eventListeners (contract_run cevs c1)) m = Some k1"
proof -
  have a: "mapGet (eventListeners (tx_run evs s1)) n = Some l1"
    using ne addEventListener_Returned_entry [OF first] between by (rule tx_run_entry)
  have b: "mapGet (eventListeners (contract_run cevs c1)) m = Some k1"
    using cne addEventListener_Returned_entry [OF cfirst] cbetween by (rule contract_run_entry)
  show ?thesis
    using a b addEventListener_entry_fails [OF ne a, of l2] addEventListener_entry_fails [OF cne b, of k2]
    by simp
qed

theorem addEventListener_twice_witness:
  "''confirmation'' \<noteq> ''error''
   \<and> fst (addEventListener ''confirmation'' (ConfirmationListener 0 (Function 1 returns) False)
        (new_TransactionSubscription sent not_found 2000 Undeclared)) = Returned
   \<and> tx_no_off ''confirmation''
        [On ''error'' (Function 2 returns), BlockArrival mined, Off ''error'',
         EmitErrorEvent (Error ''x'') ''confirmation'', SetEventsTimeout 5]
        (snd (addEventListener ''confirmation'' (ConfirmationListener 0 (Function 1 returns) False)
          (new_TransactionSubscription sent not_found 2000 Undeclared)))
   \<and> fst (addEventListener ''confirmation'' (ConfirmationListener 1 (Function 3 returns) False)
        (tx_run
          [On ''error'' (Function 2 returns), BlockArrival mined, Off ''error'',
           EmitErrorEvent (Error ''x'') ''confirmation'', SetEventsTimeout 5]
          (snd (addEventListener ''confirmation'' (ConfirmationListener 0 (Function 1 returns) False)
            (new_TransactionSubscription sent not_found 2000 Undeclared)))))
       = Threw (Error (''A listener for event '' @ apostrophe @ ''confirmation'' @ apostrophe @
                       '' is already registered.''))
   \<and> ''Transfer'' \<noteq> ''error''
   \<and> fst (addEventListener ''Transfer'' (ContractListener 0 ''Transfer'' (Function 1 returns) False)
        (new_ContractSubscription [''Transfer''] (Declared True))) = Returned
   \<and> contract_no_off ''Transfer''
        [COn ''error'' (Function 2 returns),
         CEventFires ''Transfer'' [Positional (Num 5), EventObject [Num 5]], COff ''error'']
        (snd (addEventListener ''Transfer'' (ContractListener 0 ''Transfer'' (Function 1 returns) False)
          (new_ContractSubscription [''Transfer''] (Declared True))))
   \<and> mapGet (eventListeners (snd (addEventListener ''Transfer''
          (ContractListener 1 ''Transfer'' (Function 3 returns) False)
          (contract_run
            [COn ''error'' (Function 2 returns),
             CEventFires ''Transfer'' [Positional (Num 5), EventObject [Num 5]], COff ''error'']
            (snd (addEventListener ''Transfer'' (ContractListener 0 ''Transfer'' (Function 1 returns) False)
              (new_ContractSubscription [''Transfer''] (Declared True))))))))
        ''Transfer''
       = Some (ContractListener 0 ''Transfer'' (Function 1 returns) False)
   \<and> fst (tx_on ''confirmation'' (Function 3 returns)
        (snd (tx_on ''error'' (Function 2 returns)
          (snd (tx_on ''confirmation'' (Function 1 returns)
            (new_TransactionSubscription sent not_found 2000 Undeclared))))))
       = Threw (Error (''A listener for event '' @ apostrophe @ ''confirmation'' @ apostrophe @
                       '' is already registered.''))"
  using addEventListener_twice
    [of "''confirmation''" "ConfirmationListener 0 (Function 1 returns) False"
        "new_TransactionSubscription sent not_found 2000 Undeclared"
        "snd (addEventListener ''confirmation'' (ConfirmationListener 0 (Function 1 returns) False)
          (new_TransactionSubscription sent not_found 2000 Undeclared))"
        "[On ''error'' (Function 2 returns), BlockArrival mined, Off ''error'',
          EmitErrorEvent (Error ''x'') ''confirmation'', SetEventsTimeout 5]"
        "''Transfer''" "ContractListener 0 ''Transfer'' (Function 1 returns) False"
        "new_ContractSubscription [''Transfer''] (Declared True)"
        "snd (addEventListener ''Transfer'' (ContractListener 0 ''Transfer'' (Function 1 returns) False)
          (new_ContractSubscription [''Transfer''] (Declared True)))"
        "[COn ''error'' (Function 2 returns),
          CEventFires ''Transfer'' [Positional (Num 5), EventObject [Num 5]], COff ''error'']"
        "ConfirmationListener 1 (Function 3 returns) False"
        "ContractListener 1 ''Transfer'' (Function 3 returns) False"]
  by (simp add: evaluate)

section \<open>Valid triggers of a transaction subscription (C8)\<close>

text \<open>
  C8. On a transaction subscription, \<^verbatim>\<open>on\<close> and \<^verbatim>\<open>once\<close> with an event name
  other than \<^verbatim>\<open>"confirmation"\<close> and \<^verbatim>\<open>"error"\<close>, and \<^verbatim>\<open>once\<close> with
  \<^verbatim>\<open>"error"\<close>, throw at once (the errors "Invalid listener trigger, use:
  [confirmation,error]" and "Use on() function to subscribe to an error event.") and
  leave the subscription as it was: nothing is registered.
\<close>

theorem tx_invalid_trigger:
  assumes "n \<noteq> ''confirmation''" and "n \<noteq> ''error''"
  shows "tx_on n l s = (Threw (Error ''Invalid listener trigger, use: [confirmation,error]''), s)
       \<and> tx_once n l s = (Threw (Error ''Invalid listener trigger, use: [confirmation,error]''), s)
       \<and> tx_once ''error'' l s = (Threw (Error ''Use on() function to subscribe to an error event.''), s)"
  using assms by (simp add: tx_on_def tx_once_def tx_addListener_def)

theorem tx_invalid_trigger_witness:
  "''receipt'' \<noteq> ''confirmation'' \<and> ''receipt'' \<noteq> ''error''
   \<and> tx_on ''receipt'' (Function 1 returns) (new_TransactionSubscription sent not_found 2000 Undeclared)
       = (Threw (Error ''Invalid listener trigger, use: [confirmation,error]''),
          new_TransactionSubscription sent not_found 2000 Undeclared)
   \<and> subscribedEventNames (snd (tx_once ''receipt'' (Function 1 returns)
        (new_TransactionSubscription sent not_found 2000 Undeclared))) = []
   \<and> subscribedEventNames (snd (tx_once ''error'' (Function 1 returns)
        (new_TransactionSubscription sent not_found 2000 Undeclared))) = []"
  using tx_invalid_trigger [of "''receipt''" "Function 1 returns"
      "new_TransactionSubscription sent not_found 2000 Undeclared"]
  by (simp add: subscribedEventNames_def mapKeys_def new_TransactionSubscription_def)

section \<open>Delivery of a contract event (C9)\<close>

text \<open>
  C9. The claim: with a listener registered for a declared event, when the contract fires
  the event with positional arguments and the trailing event object, the listener is
  invoked with \<^verbatim>\<open>{data: {args}}\<close>, \<^verbatim>\<open>args\<close> being the event object's. What the code
  does under Node.js for a listener registered with \<^verbatim>\<open>once\<close>: \<^verbatim>\<open>off\<close> throws
  before the listener is called; the \<^verbatim>\<open>catch\<close> reports it and the listener is never
  invoked.
\<close>

theorem contract_once_event_in_node:
  "fst (contract_once ''Transfer'' (Function 1 returns)
          (new_ContractSubscription [''Transfer''] Undeclared)) = Returned
   \<and> fst (event_fires ''Transfer'' [Positional (Num 5), EventObject [Num 5]]
       (snd (contract_once ''Transfer'' (Function 1 returns)
          (new_ContractSubscription [''Transfer''] Undeclared)))) = [Returned]
   \<and> calls (snd (event_fires ''Transfer'' [Positional (Num 5), EventObject [Num 5]]
       (snd (contract_once ''Transfer'' (Function 1 returns)
          (new_ContractSubscription [''Transfer''] Undeclared))))) = []
   \<and> console (snd (event_fires ''Transfer'' [Positional (Num 5), EventObject [Num 5]]
       (snd (contract_once ''Transfer'' (Function 1 returns)
          (new_ContractSubscription [''Transfer''] Undeclared))))) =
       [''Error emission without listener: Error: Listener function with error: event is not defined'']"
  by (simp add: evaluate)

text \<open>
  A listener registered with \<^verbatim>\<open>on\<close> is called with the event object's payload,
  whatever the positional arguments before it.
\<close>

lemma contract_on_delivers:
  "contract_try n l False (positional @ [EventObject payload]) s =
     call l (EventMessage (Some payload)) s"
  by (simp add: contract_try_def)

section \<open>A throwing error listener (C10)\<close>

text \<open>
  C10. \<^verbatim>\<open>_emitErrorEvent\<close> with an error listener registered is the call of that
  listener and nothing more, so an exception of the listener is the outcome of the
  emission. In the confirmation closure the emission of the \<^verbatim>\<open>catch\<close> block is the
  last thing done: when the \<^verbatim>\<open>try\<close> block threw and the error listener throws on the
  error made from it, that exception is the outcome of the closure, the rejection of the
  promise handed back to the emitter that called it.
\<close>

theorem error_listener_exception_escapes:
  assumes reg: "mapGet (eventListeners s) ''error'' = Some (Callback (Function i f))"
      and thr: "f (ErrorMessage err n) = Some e"
      and body: "confirmation_try l once t = (Threw e0, t1)"
      and reg': "mapGet (eventListeners t1) ''error'' = Some (Callback (Function j g))"
      and thr': "g (ErrorMessage (Error (''Listener function with error: '' @ message_of e0))
                     ''confirmation'') = Some e'"
  shows "emitErrorEvent err n s = call (Function i f) (ErrorMessage err n) s
       \<and> emitErrorEvent err n s = (Threw e, s\<lparr>calls := calls s @ [(i, ErrorMessage err n)]\<rparr>)
       \<and> confirmation_ethersListener l once t =
           (Threw e', t1\<lparr>calls := calls t1 @
              [(j, ErrorMessage (Error (''Listener function with error: '' @ message_of e0))
                     ''confirmation'')]\<rparr>)"
  using assms by (simp add: emitErrorEvent_def confirmation_ethersListener_def)

theorem error_listener_exception_escapes_witness:
  "mapGet (eventListeners throwing_subscription) ''error'' = Some (Callback (Function 2 throws_boom))
   \<and> throws_boom (ErrorMessage (Error ''Event confirmation reached timeout.'') ''confirmation'')
       = Some (Error ''boom'')
   \<and> fst (confirmation_try (Function 1 throws_boom) False throwing_subscription) = Threw (Error ''boom'')
   \<and> fst (emitErrorEvent (Error ''Event confirmation reached timeout.'') ''confirmation''
            throwing_subscription) = Threw (Error ''boom'')
   \<and> fst (confirmation_ethersListener (Function 1 throws_boom) False throwing_subscription)
       = Threw (Error ''boom'')
   \<and> fst (block_arrival mined throwing_subscription) = [Threw (Error ''boom'')]"
  using error_listener_exception_escapes
    [of throwing_subscription 2 throws_boom "Error ''Event confirmation reached timeout.''"
        "''confirmation''" "Error ''boom''"
        "Function 1 throws_boom" False throwing_subscription "Error ''boom''"
        "snd (confirmation_try (Function 1 throws_boom) False throwing_subscription)"
        2 throws_boom "Error ''boom''"]
  by (simp add: evaluate)

end
